theory Spec2Isabelle
  imports Main
begin

section \<open>check-hf-size: total size of a model repository\<close>

text \<open>
  The script \<^verbatim>\<open>images/artifact-downloader/check-size/check-hf-size.py\<close> reads the
  repository identifier from the environment, asks the hub for the repository's
  metadata once, prints the sum of the file sizes and maps three classes of exception to
  three exit codes:
  \<^verbatim>\<open>
  MODEL_PATH = os.environ['MODEL_PATH']
  try:
      info = HfApi().model_info(MODEL_PATH, files_metadata=True)
      print(sum(f.size or 0 for f in info.siblings))
  except RepositoryNotFoundError:
      print(f'Repository Not Found: {MODEL_PATH}', file=sys.stderr)
      print('Check the model name or ensure it exists on HuggingFace.', file=sys.stderr)
      sys.exit(1)
  except GatedRepoError:
      print(f'Model requires authentication: {MODEL_PATH}', file=sys.stderr)
      print('Set HF_TOKEN environment variable with a valid HuggingFace token.', file=sys.stderr)
      print(f'Cannot access gated repo: {MODEL_PATH}', file=sys.stderr)
      sys.exit(2)
  except Exception as e:
      print(f'Failed to fetch model info: {e}', file=sys.stderr)
      sys.exit(3)
  \<close>
  The environment is a map from names to values, the hub is a function from a repository
  identifier to what \<^verbatim>\<open>model_info\<close> does there (it returns a record or raises), and
  a run of the script yields the lines printed on each channel, the log of the calls of
  \<^verbatim>\<open>model_info\<close> that were made, and how the process ended. Each call of the lookup
  appends its argument to the log, so that a lookup that is skipped or repeated shows.
\<close>

subsection \<open>Exceptions\<close>

text \<open>
  An exception object carries the linearised ancestry of its class (Python's
  \<^verbatim>\<open>type(e).__mro__\<close>) and its text (\<^verbatim>\<open>str(e)\<close>). A clause
  \<^verbatim>\<open>except C\<close> matches \<open>e\<close> when \<open>C\<close> is among the ancestry. Only the classes
  that the script names or raises are listed; the classes of the HTTP client that lie
  between \<open>HfHubHTTPError\<close> and \<open>Exception\<close> are named by no clause and are left out.
\<close>

datatype pyclass =
    BaseException
  | Exception
  | LookupError
  | KeyError
  | TypeError
  | HfHubHTTPError
  | RepositoryNotFoundError
  | GatedRepoError

record exc =
  mro :: "pyclass list"
  message :: string

definition isinstance :: "exc \<Rightarrow> pyclass \<Rightarrow> bool" where
  "isinstance e C = (C \<in> set (mro e))"

text \<open>
  The exceptions the runs below meet. \<^verbatim>\<open>os.environ[k]\<close> raises \<open>KeyError(k)\<close>,
  whose text is the key's \<^verbatim>\<open>repr\<close>. Iterating over \<open>None\<close> raises a
  \<open>TypeError\<close>. The client library declares
  \<^verbatim>\<open>class RepositoryNotFoundError(HfHubHTTPError)\<close> and
  \<^verbatim>\<open>class GatedRepoError(RepositoryNotFoundError)\<close>.
\<close>

definition KeyError_exc :: "string \<Rightarrow> exc" where
  "KeyError_exc k =
     \<lparr>mro = [KeyError, LookupError, Exception, BaseException],
      message = [CHR 0x27] @ k @ [CHR 0x27]\<rparr>"

definition NoneType_not_iterable :: exc where
  "NoneType_not_iterable =
     \<lparr>mro = [TypeError, Exception, BaseException],
      message = [CHR 0x27] @ ''NoneType'' @ [CHR 0x27] @ '' object is not iterable''\<rparr>"

definition HfHubHTTPError_exc :: "string \<Rightarrow> exc" where
  "HfHubHTTPError_exc m =
     \<lparr>mro = [HfHubHTTPError, Exception, BaseException], message = m\<rparr>"

definition RepositoryNotFoundError_exc :: "string \<Rightarrow> exc" where
  "RepositoryNotFoundError_exc m =
     \<lparr>mro = [RepositoryNotFoundError, HfHubHTTPError, Exception, BaseException],
      message = m\<rparr>"

definition GatedRepoError_exc :: "string \<Rightarrow> exc" where
  "GatedRepoError_exc m =
     \<lparr>mro = [GatedRepoError, RepositoryNotFoundError, HfHubHTTPError, Exception,
             BaseException],
      message = m\<rparr>"

subsection \<open>Repository metadata\<close>

text \<open>
  \<^verbatim>\<open>model_info\<close> returns a \<open>ModelInfo\<close> whose \<open>siblings\<close> is a list of
  \<open>RepoSibling\<close> or \<open>None\<close>; the \<open>size\<close> of a sibling is an integer or \<open>None\<close>.
\<close>

record RepoSibling =
  rfilename :: string
  size_f :: "int option"

record ModelInfo =
  siblings :: "RepoSibling list option"

subsection \<open>Printing an integer\<close>

text \<open>\<^verbatim>\<open>print(n)\<close> writes \<^verbatim>\<open>str(n)\<close>: the decimal digits, after a minus sign when
  \<open>n\<close> is negative.\<close>

definition digit :: "nat \<Rightarrow> char" where
  "digit d = ''0123456789'' ! d"

function str_nat :: "nat \<Rightarrow> string" where
  "str_nat n = (if n < 10 then [digit n] else str_nat (n div 10) @ [digit (n mod 10)])"
  by pat_completeness auto
termination
  by (relation "measure id") auto

declare str_nat.simps [simp del]

definition str_int :: "int \<Rightarrow> string" where
  "str_int i = (if i < 0 then CHR ''-'' # str_nat (nat (- i)) else str_nat (nat i))"

text \<open>What a line denotes when it is read as a decimal numeral: the digits from left to right,
  after an optional minus sign; \<open>None\<close> when the line is empty or holds another character.
  This reading is independent of \<open>str_int\<close> and says what "the decimal form of \<open>n\<close>"
  means.\<close>

definition digit_value :: "char \<Rightarrow> nat option" where
  "digit_value c =
     map_of [(CHR ''0'', 0), (CHR ''1'', 1), (CHR ''2'', 2), (CHR ''3'', 3), (CHR ''4'', 4),
             (CHR ''5'', 5), (CHR ''6'', 6), (CHR ''7'', 7), (CHR ''8'', 8), (CHR ''9'', 9)] c"

fun digits_value :: "nat \<Rightarrow> string \<Rightarrow> nat option" where
  "digits_value acc [] = Some acc"
| "digits_value acc (c # cs) =
     (case digit_value c of None \<Rightarrow> None | Some d \<Rightarrow> digits_value (10 * acc + d) cs)"

definition decimal_nat :: "string \<Rightarrow> nat option" where
  "decimal_nat s = (if s = [] then None else digits_value 0 s)"

definition decimal_int :: "string \<Rightarrow> int option" where
  "decimal_int s =
     (case s of
        [] \<Rightarrow> None
      | c # cs \<Rightarrow>
          if c = CHR ''-'' then map_option (\<lambda>v. - int v) (decimal_nat cs)
          else map_option int (decimal_nat s))"

subsection \<open>The body of the try statement\<close>

text \<open>\<^verbatim>\<open>f.size or 0\<close> is \<open>0\<close> when the size is \<open>None\<close> or \<open>0\<close> (both are falsy) and the
  size otherwise.\<close>

definition size_or_0 :: "RepoSibling \<Rightarrow> int" where
  "size_or_0 f = (case size_f f of None \<Rightarrow> 0 | Some n \<Rightarrow> if n = 0 then 0 else n)"

text \<open>\<^verbatim>\<open>sum\<close> starts at \<open>0\<close> and adds the items from left to right.\<close>

definition py_sum :: "int list \<Rightarrow> int" where
  "py_sum xs = foldl (+) 0 xs"

definition total_size :: "ModelInfo \<Rightarrow> exc + int" where
  "total_size info =
     (case siblings info of
        None \<Rightarrow> Inl NoneType_not_iterable
      | Some fs \<Rightarrow> Inr (py_sum (map size_or_0 fs)))"

text \<open>The call \<^verbatim>\<open>HfApi().model_info(repo_id, files_metadata=True)\<close>: it gives what the hub
  does for \<open>repo_id\<close> and leaves a trace, the argument appended to the log of calls.\<close>

type_synonym call_log = "string list"

definition HfApi_model_info ::
  "(string \<Rightarrow> exc + ModelInfo) \<Rightarrow> string \<Rightarrow> call_log \<Rightarrow> (exc + ModelInfo) \<times> call_log" where
  "HfApi_model_info model_info repo_id log = (model_info repo_id, log @ [repo_id])"

text \<open>The two statements under \<^verbatim>\<open>try\<close>: the lookup, then the line printed on standard
  output. An exception raised by either leaves the body before anything is printed. The body
  takes the log of calls and returns it as the lookup left it.\<close>

definition try_body ::
  "(string \<Rightarrow> exc + ModelInfo) \<Rightarrow> string \<Rightarrow> call_log \<Rightarrow> (exc + string list) \<times> call_log" where
  "try_body model_info MODEL_PATH log =
     (case HfApi_model_info model_info MODEL_PATH log of
        (Inl e, log') \<Rightarrow> (Inl e, log')
      | (Inr info, log') \<Rightarrow>
          (case total_size info of
             Inl e \<Rightarrow> (Inl e, log')
           | Inr n \<Rightarrow> (Inr [str_int n], log')))"

subsection \<open>The except clauses\<close>

datatype clause = NotFoundClause | GatedClause | ExceptionClause

text \<open>The clauses are tried in the order they are written; the first that matches runs, and an
  exception that none matches leaves the try statement.\<close>

definition matching_clause :: "exc \<Rightarrow> clause option" where
  "matching_clause e =
     (if isinstance e RepositoryNotFoundError then Some NotFoundClause
      else if isinstance e GatedRepoError then Some GatedClause
      else if isinstance e Exception then Some ExceptionClause
      else None)"

text \<open>What a clause prints on standard error, and the argument of its \<^verbatim>\<open>sys.exit\<close>.\<close>

fun handler :: "string \<Rightarrow> exc \<Rightarrow> clause \<Rightarrow> string list \<times> int" where
  "handler MODEL_PATH e NotFoundClause =
     ([''Repository Not Found: '' @ MODEL_PATH,
       ''Check the model name or ensure it exists on HuggingFace.''], 1)"
| "handler MODEL_PATH e GatedClause =
     ([''Model requires authentication: '' @ MODEL_PATH,
       ''Set HF_TOKEN environment variable with a valid HuggingFace token.'',
       ''Cannot access gated repo: '' @ MODEL_PATH], 2)"
| "handler MODEL_PATH e ExceptionClause =
     ([''Failed to fetch model info: '' @ message e], 3)"

subsection \<open>The script\<close>

text \<open>A process ends by \<^verbatim>\<open>sys.exit(n)\<close> (or by reaching the end of the script, which is
  \<open>Exit 0\<close>), or by an exception that nothing catches. The interpreter reports the latter
  with a traceback and ends the process with status 1. The fields \<open>stdout\<close> and \<open>stderr\<close>
  hold the lines written by the script's own \<^verbatim>\<open>print\<close> calls, in order; \<open>lookups\<close>
  is the log of calls at the end of the run. The log is empty when the script starts, the try
  body is the only statement that touches it, and the except clauses make no call.\<close>

datatype outcome = Exit int | Uncaught exc

fun exit_status :: "outcome \<Rightarrow> int" where
  "exit_status (Exit n) = n"
| "exit_status (Uncaught e) = 1"

record process =
  stdout :: "string list"
  stderr :: "string list"
  lookups :: "string list"
  ending :: outcome

definition check_hf_size :: "(string \<rightharpoonup> string) \<Rightarrow> (string \<Rightarrow> exc + ModelInfo) \<Rightarrow> process" where
  "check_hf_size environ model_info =
     (case environ ''MODEL_PATH'' of
        None \<Rightarrow>
          \<lparr>stdout = [], stderr = [], lookups = [],
           ending = Uncaught (KeyError_exc ''MODEL_PATH'')\<rparr>
      | Some MODEL_PATH \<Rightarrow>
          (case try_body model_info MODEL_PATH [] of
             (Inr out, log) \<Rightarrow>
               \<lparr>stdout = out, stderr = [], lookups = log, ending = Exit 0\<rparr>
           | (Inl e, log) \<Rightarrow>
               (case matching_clause e of
                  None \<Rightarrow>
                    \<lparr>stdout = [], stderr = [], lookups = log, ending = Uncaught e\<rparr>
                | Some c \<Rightarrow>
                    \<lparr>stdout = [], stderr = fst (handler MODEL_PATH e c),
                     lookups = log, ending = Exit (snd (handler MODEL_PATH e c))\<rparr>)))"

subsection \<open>A hub with one repository\<close>

text \<open>The concrete runs below use a hub that knows a single repository: the lookup of that
  identifier does \<open>r\<close>, the lookup of any other raises \<open>RepositoryNotFoundError\<close>.\<close>

definition hub_with :: "string \<Rightarrow> exc + ModelInfo \<Rightarrow> string \<Rightarrow> exc + ModelInfo" where
  "hub_with repo r MODEL_PATH =
     (if MODEL_PATH = repo then r else Inl (RepositoryNotFoundError_exc ''404 Client Error.''))"

section \<open>Properties\<close>

subsection \<open>Auxiliary facts\<close>

lemma str_nat_small: "n < 10 \<Longrightarrow> str_nat n = [digit n]"
  by (subst str_nat.simps) simp

lemma str_nat_large: "\<not> n < 10 \<Longrightarrow> str_nat n = str_nat (n div 10) @ [digit (n mod 10)]"
  by (subst str_nat.simps) simp

lemmas str_int_eval = str_int_def str_nat_small str_nat_large digit_def

lemma digit_no_minus: "d < 10 \<Longrightarrow> digit d \<noteq> CHR ''-''"
proof -
  assume "d < 10"
  then have "d \<in> {0, 1, 2, 3, 4, 5, 6, 7, 8, 9}" by auto
  then show ?thesis by (auto simp: digit_def)
qed

lemma str_nat_no_minus: "CHR ''-'' \<notin> set (str_nat n)"
proof (induction n rule: str_nat.induct)
  case (1 n)
  show ?case
  proof (cases "n < 10")
    case True
    then show ?thesis using digit_no_minus [of n] by (simp add: str_nat_small)
  next
    case False
    have "n mod 10 < 10" by simp
    then have "digit (n mod 10) \<noteq> CHR ''-''" by (rule digit_no_minus)
    with False "1.IH" show ?thesis by (auto simp: str_nat_large)
  qed
qed

lemma str_int_nonneg_no_minus: "0 \<le> i \<Longrightarrow> CHR ''-'' \<notin> set (str_int i)"
  by (simp add: str_int_def str_nat_no_minus)

text \<open>Reading the line that \<open>str_int\<close> writes gives the integer back.\<close>

lemma digit_value_digit: "d < 10 \<Longrightarrow> digit_value (digit d) = Some d"
proof -
  assume "d < 10"
  then have "d \<in> {0, 1, 2, 3, 4, 5, 6, 7, 8, 9}" by auto
  then show ?thesis by (auto simp: digit_def digit_value_def)
qed

lemma digits_value_snoc:
  "digits_value acc (cs @ [c]) =
     (case digits_value acc cs of
        None \<Rightarrow> None
      | Some v \<Rightarrow> (case digit_value c of None \<Rightarrow> None | Some d \<Rightarrow> Some (10 * v + d)))"
  by (induction cs arbitrary: acc) (simp_all split: option.split)

lemma digits_value_str_nat: "digits_value 0 (str_nat n) = Some n"
proof (induction n rule: str_nat.induct)
  case (1 n)
  show ?case
  proof (cases "n < 10")
    case True
    then show ?thesis by (simp add: str_nat_small digit_value_digit)
  next
    case False
    have "digit_value (digit (n mod 10)) = Some (n mod 10)"
      by (rule digit_value_digit) simp
    with False "1.IH" show ?thesis
      by (simp add: str_nat_large digits_value_snoc)
  qed
qed

lemma str_nat_not_Nil: "str_nat n \<noteq> []"
  by (cases "n < 10") (simp_all add: str_nat_small str_nat_large)

lemma decimal_nat_str_nat: "decimal_nat (str_nat n) = Some n"
  by (simp add: decimal_nat_def str_nat_not_Nil digits_value_str_nat)

lemma decimal_int_str_int: "decimal_int (str_int i) = Some i"
proof (cases "i < 0")
  case True
  then show ?thesis by (simp add: str_int_def decimal_int_def decimal_nat_str_nat)
next
  case False
  obtain c cs where split: "str_nat (nat i) = c # cs"
    using str_nat_not_Nil [of "nat i"] by (cases "str_nat (nat i)") auto
  have "CHR ''-'' \<notin> set (str_nat (nat i))" by (rule str_nat_no_minus)
  with split have "c \<noteq> CHR ''-''" by auto
  moreover have "decimal_nat (c # cs) = Some (nat i)"
    using decimal_nat_str_nat [of "nat i"] split by simp
  ultimately show ?thesis using False split by (simp add: str_int_def decimal_int_def)
qed

text \<open>The try body makes one call, with \<open>MODEL_PATH\<close>, whatever the hub does.\<close>

lemma try_body_log: "snd (try_body model_info p log) = log @ [p]"
  by (simp add: try_body_def HfApi_model_info_def split: sum.split)

text \<open>The expression \<^verbatim>\<open>f.size or 0\<close> counts an absent size as zero and changes no other
  size; the left fold of \<^verbatim>\<open>sum\<close> is the sum of the list.\<close>

lemma size_or_0_eq: "size_or_0 = (\<lambda>f. case size_f f of None \<Rightarrow> 0 | Some n \<Rightarrow> n)"
  by (rule ext) (simp add: size_or_0_def split: option.split)

lemma foldl_add_int: "foldl (+) a xs = a + sum_list xs" for a :: int
  by (induction xs arbitrary: a) simp_all

lemma py_sum_eq: "py_sum xs = sum_list xs"
  by (simp add: py_sum_def foldl_add_int)

lemma total_size_Some:
  "siblings info = Some fs \<Longrightarrow>
   total_size info = Inr (\<Sum>f\<leftarrow>fs. case size_f f of None \<Rightarrow> 0 | Some n \<Rightarrow> n)"
  by (simp add: total_size_def py_sum_eq size_or_0_eq)

lemma sum_sizes_nonneg:
  assumes "\<forall>f\<in>set fs. \<forall>n. size_f f = Some n \<longrightarrow> 0 \<le> n"
  shows "0 \<le> (\<Sum>f\<leftarrow>fs. case size_f f of None \<Rightarrow> 0 | Some n \<Rightarrow> n)"
proof (rule sum_list_nonneg)
  fix x assume "x \<in> set (map (\<lambda>f. case size_f f of None \<Rightarrow> 0 | Some n \<Rightarrow> n) fs)"
  then obtain f where "f \<in> set fs" and "x = (case size_f f of None \<Rightarrow> 0 | Some n \<Rightarrow> n)"
    by auto
  with assms show "0 \<le> x" by (auto split: option.split)
qed

text \<open>The only exception the try body raises by itself is the \<open>TypeError\<close>, which the last
  clause catches.\<close>

lemma total_size_not_gated:
  "total_size info = Inl e \<Longrightarrow> matching_clause e = Some ExceptionClause"
  by (auto simp: total_size_def matching_clause_def NoneType_not_iterable_def isinstance_def
      split: option.splits)

lemma matching_clause_not_gated:
  "isinstance e GatedRepoError \<longrightarrow> isinstance e RepositoryNotFoundError \<Longrightarrow>
   matching_clause e \<noteq> Some GatedClause"
  by (auto simp: matching_clause_def)

lemma handler_stderr_nonempty: "fst (handler p e c) \<noteq> []"
  by (cases c) simp_all

lemma handler_exit_nonzero: "snd (handler p e c) \<noteq> 0"
  by (cases c) simp_all

text \<open>Exit code 2 is the second clause's alone.\<close>

lemma exit_2_only_gated_clause:
  assumes "ending (check_hf_size environ model_info) = Exit 2"
  shows "\<exists>p e. environ ''MODEL_PATH'' = Some p \<and> model_info p = Inl e
           \<and> matching_clause e = Some GatedClause"
proof (cases "environ ''MODEL_PATH''")
  case None
  with assms show ?thesis by (simp add: check_hf_size_def)
next
  case (Some p)
  show ?thesis
  proof (cases "model_info p")
    case (Inl e)
    with Some assms have "matching_clause e = Some GatedClause"
      by (cases "matching_clause e"; cases "the (matching_clause e)")
         (auto simp: check_hf_size_def try_body_def HfApi_model_info_def)
    with Some Inl show ?thesis by blast
  next
    case (Inr info)
    show ?thesis
    proof (cases "total_size info")
      case (Inl e)
      then have "matching_clause e = Some ExceptionClause" by (rule total_size_not_gated)
      with Some Inr Inl assms show ?thesis
        by (simp add: check_hf_size_def try_body_def HfApi_model_info_def)
    next
      case (Inr n)
      with Some \<open>model_info p = Inr info\<close> assms show ?thesis
        by (simp add: check_hf_size_def try_body_def HfApi_model_info_def)
    qed
  qed
qed

subsection \<open>The success path\<close>

text \<open>
  C1. When \<open>MODEL_PATH\<close> is set and the lookup returns a record whose \<open>siblings\<close> is a
  list, the script writes one line on standard output, the decimal form of the sum of the
  sizes with an absent size counted as zero, writes nothing on standard error and ends
  with exit code 0.
\<close>

theorem success_prints_total:
  assumes "environ ''MODEL_PATH'' = Some p"
    and "model_info p = Inr info"
    and "siblings info = Some fs"
  shows "check_hf_size environ model_info =
           \<lparr>stdout = [str_int (\<Sum>f\<leftarrow>fs. case size_f f of None \<Rightarrow> 0 | Some n \<Rightarrow> n)],
            stderr = [], lookups = [p], ending = Exit 0\<rparr>
         \<and> exit_status (ending (check_hf_size environ model_info)) = 0"
  using assms by (simp add: check_hf_size_def try_body_def HfApi_model_info_def total_size_Some)

text \<open>For a repository whose files have the sizes 10, 20 and \<open>None\<close> the line is \<open>30\<close>.\<close>

theorem success_prints_total_witness:
  "check_hf_size [''MODEL_PATH'' \<mapsto> ''org/model'']
     (hub_with ''org/model'' (Inr \<lparr>siblings = Some
        [\<lparr>rfilename = ''a.bin'', size_f = Some 10\<rparr>,
         \<lparr>rfilename = ''b.bin'', size_f = Some 20\<rparr>,
         \<lparr>rfilename = ''README.md'', size_f = None\<rparr>]\<rparr>))
   = \<lparr>stdout = [''30''], stderr = [], lookups = [''org/model''], ending = Exit 0\<rparr>"
  using success_prints_total [of "[''MODEL_PATH'' \<mapsto> ''org/model'']" "''org/model''"
      "hub_with ''org/model'' (Inr \<lparr>siblings = Some
        [\<lparr>rfilename = ''a.bin'', size_f = Some 10\<rparr>,
         \<lparr>rfilename = ''b.bin'', size_f = Some 20\<rparr>,
         \<lparr>rfilename = ''README.md'', size_f = None\<rparr>]\<rparr>)"
      "\<lparr>siblings = Some
        [\<lparr>rfilename = ''a.bin'', size_f = Some 10\<rparr>,
         \<lparr>rfilename = ''b.bin'', size_f = Some 20\<rparr>,
         \<lparr>rfilename = ''README.md'', size_f = None\<rparr>]\<rparr>"
      "[\<lparr>rfilename = ''a.bin'', size_f = Some 10\<rparr>,
        \<lparr>rfilename = ''b.bin'', size_f = Some 20\<rparr>,
        \<lparr>rfilename = ''README.md'', size_f = None\<rparr>]"]
  by (simp add: hub_with_def str_int_eval)

text \<open>
  C5, as the script has it. The script adds the sizes as the hub gives them and checks none
  of them. When \<open>MODEL_PATH\<close> is set and the lookup returns a record whose \<open>siblings\<close> is
  a list in which no size is negative, the line on standard output is the decimal form of
  a non-negative total and has no minus sign; when the list is empty the line is \<open>0\<close>.
\<close>

theorem total_nonneg_for_nonneg_sizes:
  assumes "environ ''MODEL_PATH'' = Some p"
    and "model_info p = Inr info"
    and "siblings info = Some fs"
  shows "((\<forall>f\<in>set fs. \<forall>n. size_f f = Some n \<longrightarrow> 0 \<le> n) \<longrightarrow>
            (\<exists>n. 0 \<le> n \<and> total_size info = Inr n
                 \<and> stdout (check_hf_size environ model_info) = [str_int n]
                 \<and> CHR ''-'' \<notin> set (str_int n)))
         \<and> (fs = [] \<longrightarrow> stdout (check_hf_size environ model_info) = [''0''])"
proof (intro conjI impI)
  assume nonneg: "\<forall>f\<in>set fs. \<forall>n. size_f f = Some n \<longrightarrow> 0 \<le> n"
  let ?n = "\<Sum>f\<leftarrow>fs. case size_f f of None \<Rightarrow> 0 | Some n \<Rightarrow> n"
  have "0 \<le> ?n" using nonneg by (rule sum_sizes_nonneg)
  moreover have "total_size info = Inr ?n" using assms(3) by (rule total_size_Some)
  moreover have "stdout (check_hf_size environ model_info) = [str_int ?n]"
    using assms by (simp add: check_hf_size_def try_body_def HfApi_model_info_def total_size_Some)
  moreover have "CHR ''-'' \<notin> set (str_int ?n)"
    using \<open>0 \<le> ?n\<close> by (rule str_int_nonneg_no_minus)
  ultimately show "\<exists>n. 0 \<le> n \<and> total_size info = Inr n
      \<and> stdout (check_hf_size environ model_info) = [str_int n]
      \<and> CHR ''-'' \<notin> set (str_int n)"
    by blast
next
  assume "fs = []"
  with assms show "stdout (check_hf_size environ model_info) = [''0'']"
    by (simp add: check_hf_size_def try_body_def HfApi_model_info_def total_size_Some str_int_eval)
qed

theorem total_nonneg_for_nonneg_sizes_witness:
  "stdout (check_hf_size [''MODEL_PATH'' \<mapsto> ''org/model'']
     (hub_with ''org/model''
        (Inr \<lparr>siblings = Some [\<lparr>rfilename = ''a.bin'', size_f = Some 7\<rparr>,
                                \<lparr>rfilename = ''b.txt'', size_f = None\<rparr>]\<rparr>))) = [''7'']
   \<and> stdout (check_hf_size [''MODEL_PATH'' \<mapsto> ''org/empty'']
     (hub_with ''org/empty'' (Inr \<lparr>siblings = Some []\<rparr>))) = [''0'']"
  using total_nonneg_for_nonneg_sizes [of "[''MODEL_PATH'' \<mapsto> ''org/model'']" "''org/model''"
      "hub_with ''org/model''
        (Inr \<lparr>siblings = Some [\<lparr>rfilename = ''a.bin'', size_f = Some 7\<rparr>,
                                \<lparr>rfilename = ''b.txt'', size_f = None\<rparr>]\<rparr>)"
      "\<lparr>siblings = Some [\<lparr>rfilename = ''a.bin'', size_f = Some 7\<rparr>,
                          \<lparr>rfilename = ''b.txt'', size_f = None\<rparr>]\<rparr>"
      "[\<lparr>rfilename = ''a.bin'', size_f = Some 7\<rparr>, \<lparr>rfilename = ''b.txt'', size_f = None\<rparr>]"]
    total_nonneg_for_nonneg_sizes [of "[''MODEL_PATH'' \<mapsto> ''org/empty'']" "''org/empty''"
      "hub_with ''org/empty'' (Inr \<lparr>siblings = Some []\<rparr>)"
      "\<lparr>siblings = Some []\<rparr>" "[]"]
  by (simp add: hub_with_def total_size_def py_sum_def size_or_0_def str_int_eval)

text \<open>
  C5, as the claim has it, fails: a run in which the lookup succeeds with one file of size
  \<open>-1\<close> ends with exit code 0 and the line \<open>-1\<close> on standard output.
\<close>

theorem negative_size_counterexample:
  "check_hf_size [''MODEL_PATH'' \<mapsto> ''org/model'']
     (hub_with ''org/model''
        (Inr \<lparr>siblings = Some [\<lparr>rfilename = ''a.bin'', size_f = Some (- 1)\<rparr>]\<rparr>))
   = \<lparr>stdout = [''-1''], stderr = [], lookups = [''org/model''], ending = Exit 0\<rparr>"
  by (simp add: check_hf_size_def try_body_def HfApi_model_info_def total_size_def py_sum_def
      size_or_0_def
      hub_with_def str_int_eval)

subsection \<open>The failure paths\<close>

text \<open>
  C3. When \<open>MODEL_PATH\<close> is set and the lookup raises an exception that is a
  \<open>RepositoryNotFoundError\<close> and not a \<open>GatedRepoError\<close>, the script writes the line
  \<open>Repository Not Found: \<close> followed by the identifier and the hint to check the name on
  standard error, nothing on standard output, and ends with exit code 1.
\<close>

theorem not_found_exits_1:
  assumes "environ ''MODEL_PATH'' = Some p"
    and "model_info p = Inl e"
    and "isinstance e RepositoryNotFoundError"
    and "\<not> isinstance e GatedRepoError"
  shows "check_hf_size environ model_info =
           \<lparr>stdout = [],
            stderr = [''Repository Not Found: '' @ p,
                      ''Check the model name or ensure it exists on HuggingFace.''],
            lookups = [p], ending = Exit 1\<rparr>
         \<and> exit_status (ending (check_hf_size environ model_info)) = 1"
  using assms by (simp add: check_hf_size_def try_body_def HfApi_model_info_def matching_clause_def)

theorem not_found_exits_1_witness:
  "check_hf_size [''MODEL_PATH'' \<mapsto> ''org/no-such-model'']
     (hub_with ''org/model'' (Inr \<lparr>siblings = Some []\<rparr>))
   = \<lparr>stdout = [],
      stderr = [''Repository Not Found: org/no-such-model'',
                ''Check the model name or ensure it exists on HuggingFace.''],
      lookups = [''org/no-such-model''], ending = Exit 1\<rparr>"
  using not_found_exits_1 [of "[''MODEL_PATH'' \<mapsto> ''org/no-such-model'']"
      "''org/no-such-model''" "hub_with ''org/model'' (Inr \<lparr>siblings = Some []\<rparr>)"
      "RepositoryNotFoundError_exc ''404 Client Error.''"]
  by (simp add: hub_with_def RepositoryNotFoundError_exc_def isinstance_def)

text \<open>
  C4. When \<open>MODEL_PATH\<close> is set and the lookup raises an exception that is an
  \<open>Exception\<close> and neither a \<open>RepositoryNotFoundError\<close> nor a \<open>GatedRepoError\<close>, the
  script writes the line \<open>Failed to fetch model info: \<close> followed by the exception's text
  on standard error, nothing on standard output, and ends with exit code 3.
\<close>

theorem other_failure_exits_3:
  assumes "environ ''MODEL_PATH'' = Some p"
    and "model_info p = Inl e"
    and "isinstance e Exception"
    and "\<not> isinstance e RepositoryNotFoundError"
    and "\<not> isinstance e GatedRepoError"
  shows "check_hf_size environ model_info =
           \<lparr>stdout = [], stderr = [''Failed to fetch model info: '' @ message e],
            lookups = [p], ending = Exit 3\<rparr>
         \<and> exit_status (ending (check_hf_size environ model_info)) = 3"
  using assms by (simp add: check_hf_size_def try_body_def HfApi_model_info_def matching_clause_def)

theorem other_failure_exits_3_witness:
  "check_hf_size [''MODEL_PATH'' \<mapsto> ''org/model'']
     (hub_with ''org/model'' (Inl (HfHubHTTPError_exc ''504 Server Error: Gateway Time-out'')))
   = \<lparr>stdout = [],
      stderr = [''Failed to fetch model info: 504 Server Error: Gateway Time-out''],
      lookups = [''org/model''], ending = Exit 3\<rparr>"
  using other_failure_exits_3 [of "[''MODEL_PATH'' \<mapsto> ''org/model'']" "''org/model''"
      "hub_with ''org/model'' (Inl (HfHubHTTPError_exc ''504 Server Error: Gateway Time-out''))"
      "HfHubHTTPError_exc ''504 Server Error: Gateway Time-out''"]
  by (simp add: hub_with_def HfHubHTTPError_exc_def isinstance_def)

text \<open>
  C6. When \<open>MODEL_PATH\<close> is not in the environment, the read of the variable raises
  \<open>KeyError\<close> before the try statement is entered: no lookup is made, the script prints
  nothing, no clause handles the exception, and the exit status is not 0.
\<close>

theorem missing_MODEL_PATH_uncaught:
  assumes "environ ''MODEL_PATH'' = None"
  shows "check_hf_size environ model_info =
           \<lparr>stdout = [], stderr = [], lookups = [],
            ending = Uncaught (KeyError_exc ''MODEL_PATH'')\<rparr>
         \<and> exit_status (ending (check_hf_size environ model_info)) \<noteq> 0"
  using assms by (simp add: check_hf_size_def)

theorem missing_MODEL_PATH_uncaught_witness:
  "check_hf_size [''HF_TOKEN'' \<mapsto> ''hf_abc'']
     (hub_with ''org/model'' (Inr \<lparr>siblings = Some []\<rparr>))
   = \<lparr>stdout = [], stderr = [], lookups = [],
      ending = Uncaught (KeyError_exc ''MODEL_PATH'')\<rparr>
   \<and> exit_status (ending (check_hf_size [''HF_TOKEN'' \<mapsto> ''hf_abc'']
         (hub_with ''org/model'' (Inr \<lparr>siblings = Some []\<rparr>)))) = 1"
  using missing_MODEL_PATH_uncaught [of "[''HF_TOKEN'' \<mapsto> ''hf_abc'']"
      "hub_with ''org/model'' (Inr \<lparr>siblings = Some []\<rparr>)"]
  by simp

subsection \<open>One lookup, and the two channels\<close>

text \<open>
  C7. When \<open>MODEL_PATH\<close> is set, the log of calls at the end of a run holds one entry, the
  value of \<open>MODEL_PATH\<close>: \<^verbatim>\<open>model_info\<close> is called exactly once, whatever the lookup
  does, and is neither skipped nor repeated.
\<close>

theorem lookup_exactly_once:
  assumes "environ ''MODEL_PATH'' = Some p"
  shows "lookups (check_hf_size environ model_info) = [p]"
proof -
  obtain res log where body: "try_body model_info p [] = (res, log)"
    by (cases "try_body model_info p []")
  have "log = [p]"
    using try_body_log [of model_info p "[]"] body by simp
  with assms body show ?thesis
    by (cases res) (simp_all add: check_hf_size_def split: option.split)
qed

theorem lookup_exactly_once_witness:
  "lookups (check_hf_size [''MODEL_PATH'' \<mapsto> ''org/model'']
     (hub_with ''org/model'' (Inl (HfHubHTTPError_exc ''504 Server Error: Gateway Time-out''))))
   = [''org/model'']"
  using lookup_exactly_once [of "[''MODEL_PATH'' \<mapsto> ''org/model'']" "''org/model''"
      "hub_with ''org/model'' (Inl (HfHubHTTPError_exc ''504 Server Error: Gateway Time-out''))"]
  by simp

text \<open>
  C9. In every run: when the script ends with exit code 0, the lookup has returned a record
  whose \<open>siblings\<close> is a list, standard output holds a single line, that line read as a
  decimal numeral is the sum of the sizes (an absent size counted as zero), and the script
  has written nothing on standard error; when it ends in any other way, it has written
  nothing on standard output; and when it ends with a non-zero exit code of its own, it has
  written on standard error.
\<close>

theorem stdout_only_on_success:
  assumes "r = check_hf_size environ model_info"
  shows "(ending r = Exit 0 \<longrightarrow>
            (\<exists>p info fs. environ ''MODEL_PATH'' = Some p \<and> model_info p = Inr info
               \<and> siblings info = Some fs
               \<and> stdout r = [str_int (\<Sum>f\<leftarrow>fs. case size_f f of None \<Rightarrow> 0 | Some n \<Rightarrow> n)]
               \<and> (\<exists>line. stdout r = [line]
                     \<and> decimal_int line
                         = Some (\<Sum>f\<leftarrow>fs. case size_f f of None \<Rightarrow> 0 | Some n \<Rightarrow> n)))
            \<and> stderr r = [])
         \<and> (ending r \<noteq> Exit 0 \<longrightarrow> stdout r = [])
         \<and> (\<forall>n. ending r = Exit n \<and> n \<noteq> 0 \<longrightarrow> stderr r \<noteq> [])"
proof (intro conjI impI allI)
  assume ok: "ending r = Exit 0"
  from ok obtain p where p: "environ ''MODEL_PATH'' = Some p"
    unfolding assms by (cases "environ ''MODEL_PATH''") (auto simp: check_hf_size_def)
  from ok p obtain info where info: "model_info p = Inr info"
    unfolding assms
    by (cases "model_info p")
       (auto simp: check_hf_size_def try_body_def HfApi_model_info_def handler_exit_nonzero
          split: option.splits)
  from ok p info obtain fs where fs: "siblings info = Some fs"
    unfolding assms
    by (cases "siblings info")
       (auto simp: check_hf_size_def try_body_def HfApi_model_info_def total_size_def
          handler_exit_nonzero split: option.splits)
  let ?total = "\<Sum>f\<leftarrow>fs. case size_f f of None \<Rightarrow> 0 | Some n \<Rightarrow> n"
  have run: "r = \<lparr>stdout = [str_int ?total], stderr = [], lookups = [p], ending = Exit 0\<rparr>"
    unfolding assms using p info fs
    by (simp add: check_hf_size_def try_body_def HfApi_model_info_def total_size_Some)
  have out: "stdout r = [str_int ?total]" by (simp add: run)
  moreover have "\<exists>line. stdout r = [line] \<and> decimal_int line = Some ?total"
    using out decimal_int_str_int [of ?total] by simp
  ultimately show "\<exists>p info fs. environ ''MODEL_PATH'' = Some p \<and> model_info p = Inr info
      \<and> siblings info = Some fs
      \<and> stdout r = [str_int (\<Sum>f\<leftarrow>fs. case size_f f of None \<Rightarrow> 0 | Some n \<Rightarrow> n)]
      \<and> (\<exists>line. stdout r = [line]
            \<and> decimal_int line
                = Some (\<Sum>f\<leftarrow>fs. case size_f f of None \<Rightarrow> 0 | Some n \<Rightarrow> n))"
    using p info fs by blast
  show "stderr r = []" by (simp add: run)
next
  assume "ending r \<noteq> Exit 0"
  then show "stdout r = []"
    unfolding assms
    by (auto simp: check_hf_size_def split: option.splits sum.splits prod.splits)
next
  fix n
  assume "ending r = Exit n \<and> n \<noteq> 0"
  then show "stderr r \<noteq> []"
    unfolding assms
    by (auto simp: check_hf_size_def handler_stderr_nonempty
        split: option.splits sum.splits prod.splits)
qed

theorem stdout_only_on_success_witness:
  "stdout (check_hf_size [''MODEL_PATH'' \<mapsto> ''org/no-such-model'']
      (hub_with ''org/model''
         (Inr \<lparr>siblings = Some [\<lparr>rfilename = ''a.bin'', size_f = Some 10\<rparr>,
                                 \<lparr>rfilename = ''b.bin'', size_f = Some 20\<rparr>]\<rparr>))) = []
   \<and> stderr (check_hf_size [''MODEL_PATH'' \<mapsto> ''org/no-such-model'']
      (hub_with ''org/model''
         (Inr \<lparr>siblings = Some [\<lparr>rfilename = ''a.bin'', size_f = Some 10\<rparr>,
                                 \<lparr>rfilename = ''b.bin'', size_f = Some 20\<rparr>]\<rparr>))) \<noteq> []
   \<and> stdout (check_hf_size [''MODEL_PATH'' \<mapsto> ''org/model'']
      (hub_with ''org/model''
         (Inr \<lparr>siblings = Some [\<lparr>rfilename = ''a.bin'', size_f = Some 10\<rparr>,
                                 \<lparr>rfilename = ''b.bin'', size_f = Some 20\<rparr>]\<rparr>))) = [''30'']
   \<and> decimal_int ''30'' = Some 30"
proof -
  let ?hub = "hub_with ''org/model''
         (Inr \<lparr>siblings = Some [\<lparr>rfilename = ''a.bin'', size_f = Some 10\<rparr>,
                                 \<lparr>rfilename = ''b.bin'', size_f = Some 20\<rparr>]\<rparr>)"
  let ?bad = "check_hf_size [''MODEL_PATH'' \<mapsto> ''org/no-such-model''] ?hub"
  let ?good = "check_hf_size [''MODEL_PATH'' \<mapsto> ''org/model''] ?hub"
  have bad: "ending ?bad = Exit 1"
    by (simp add: check_hf_size_def try_body_def HfApi_model_info_def matching_clause_def
        hub_with_def RepositoryNotFoundError_exc_def isinstance_def)
  have good: "ending ?good = Exit 0"
    by (simp add: check_hf_size_def try_body_def HfApi_model_info_def total_size_def
        hub_with_def)
  from stdout_only_on_success [OF refl, of "[''MODEL_PATH'' \<mapsto> ''org/no-such-model'']" ?hub]
    bad
  have "stdout ?bad = [] \<and> stderr ?bad \<noteq> []" by simp
  moreover from stdout_only_on_success [OF refl, of "[''MODEL_PATH'' \<mapsto> ''org/model'']" ?hub]
    good
  have "stdout ?good = [''30''] \<and> decimal_int ''30'' = Some 30"
    by (auto simp: hub_with_def str_int_eval)
  ultimately show ?thesis by simp
qed

subsection \<open>The order of the except clauses\<close>

text \<open>
  C10. Let every \<open>GatedRepoError\<close> that the lookup raises be a \<open>RepositoryNotFoundError\<close>
  too, as the client library's class declarations make it. Then a \<open>GatedRepoError\<close> raised
  by the lookup is caught by the first clause, which writes the \<open>Repository Not Found\<close>
  lines and ends the script with exit code 1; the second clause is selected for no
  exception of the lookup, and no run ends with exit code 2.
\<close>

theorem gated_caught_by_not_found_clause:
  assumes "\<forall>p e. model_info p = Inl e \<and> isinstance e GatedRepoError
             \<longrightarrow> isinstance e RepositoryNotFoundError"
  shows "(\<forall>p e. environ ''MODEL_PATH'' = Some p \<and> model_info p = Inl e
             \<and> isinstance e GatedRepoError \<longrightarrow>
           matching_clause e = Some NotFoundClause \<and>
           check_hf_size environ model_info =
             \<lparr>stdout = [],
              stderr = [''Repository Not Found: '' @ p,
                        ''Check the model name or ensure it exists on HuggingFace.''],
              lookups = [p], ending = Exit 1\<rparr>)
         \<and> (\<forall>p e. model_info p = Inl e \<longrightarrow> matching_clause e \<noteq> Some GatedClause)
         \<and> ending (check_hf_size environ model_info) \<noteq> Exit 2"
proof (intro conjI allI impI)
  fix p e
  assume h: "environ ''MODEL_PATH'' = Some p \<and> model_info p = Inl e
     \<and> isinstance e GatedRepoError"
  with assms have nf: "isinstance e RepositoryNotFoundError" by blast
  then show "matching_clause e = Some NotFoundClause" by (simp add: matching_clause_def)
  from h nf show "check_hf_size environ model_info =
             \<lparr>stdout = [],
              stderr = [''Repository Not Found: '' @ p,
                        ''Check the model name or ensure it exists on HuggingFace.''],
              lookups = [p], ending = Exit 1\<rparr>"
    by (simp add: check_hf_size_def try_body_def HfApi_model_info_def matching_clause_def)
next
  fix p e
  assume "model_info p = Inl e"
  with assms have "isinstance e GatedRepoError \<longrightarrow> isinstance e RepositoryNotFoundError"
    by blast
  then show "matching_clause e \<noteq> Some GatedClause" by (rule matching_clause_not_gated)
next
  show "ending (check_hf_size environ model_info) \<noteq> Exit 2"
  proof
    assume "ending (check_hf_size environ model_info) = Exit 2"
    then obtain p e where "model_info p = Inl e" and g: "matching_clause e = Some GatedClause"
      using exit_2_only_gated_clause by blast
    with assms have "isinstance e GatedRepoError \<longrightarrow> isinstance e RepositoryNotFoundError"
      by blast
    then have "matching_clause e \<noteq> Some GatedClause" by (rule matching_clause_not_gated)
    with g show False by contradiction
  qed
qed

theorem gated_caught_by_not_found_clause_witness:
  "matching_clause (GatedRepoError_exc ''403 Client Error.'') = Some NotFoundClause
   \<and> check_hf_size [''MODEL_PATH'' \<mapsto> ''org/gated-model'']
       (hub_with ''org/gated-model'' (Inl (GatedRepoError_exc ''403 Client Error.'')))
     = \<lparr>stdout = [],
        stderr = [''Repository Not Found: org/gated-model'',
                  ''Check the model name or ensure it exists on HuggingFace.''],
        lookups = [''org/gated-model''], ending = Exit 1\<rparr>"
proof -
  let ?hub = "hub_with ''org/gated-model'' (Inl (GatedRepoError_exc ''403 Client Error.''))"
  have sub: "\<forall>p e. ?hub p = Inl e \<and> isinstance e GatedRepoError
      \<longrightarrow> isinstance e RepositoryNotFoundError"
    by (auto simp: hub_with_def GatedRepoError_exc_def RepositoryNotFoundError_exc_def
        isinstance_def split: if_splits)
  have here: "[''MODEL_PATH'' \<mapsto> ''org/gated-model''] ''MODEL_PATH'' = Some ''org/gated-model''
      \<and> ?hub ''org/gated-model'' = Inl (GatedRepoError_exc ''403 Client Error.'')
      \<and> isinstance (GatedRepoError_exc ''403 Client Error.'') GatedRepoError"
    by (simp add: hub_with_def GatedRepoError_exc_def isinstance_def)
  from gated_caught_by_not_found_clause [OF sub, of "[''MODEL_PATH'' \<mapsto> ''org/gated-model'']",
      THEN conjunct1, THEN spec, THEN spec, THEN mp, OF here]
  show ?thesis by simp
qed

text \<open>
  C2. The script at a gated repository: the lookup of \<open>meta-llama/Llama-2-7b\<close> raises the
  client library's \<open>GatedRepoError\<close>. The first clause catches it: standard error holds the
  two \<open>Repository Not Found\<close> lines, not the three lines of the second clause, and the exit
  code is 1, not 2.
\<close>

theorem gated_repo_reported_as_not_found:
  "check_hf_size [''MODEL_PATH'' \<mapsto> ''meta-llama/Llama-2-7b'']
     (hub_with ''meta-llama/Llama-2-7b''
        (Inl (GatedRepoError_exc ''403 Client Error. Cannot access gated repo.'')))
   = \<lparr>stdout = [],
      stderr = [''Repository Not Found: meta-llama/Llama-2-7b'',
                ''Check the model name or ensure it exists on HuggingFace.''],
      lookups = [''meta-llama/Llama-2-7b''], ending = Exit 1\<rparr>"
  by (simp add: check_hf_size_def try_body_def HfApi_model_info_def matching_clause_def hub_with_def
      GatedRepoError_exc_def isinstance_def)

text \<open>
  C8. The exit status of the script at a gated repository: with \<open>MODEL_PATH\<close> set and the
  lookup raising the client library's \<open>GatedRepoError\<close>, the exit status is 1 and not the 2
  that the second clause would give.
\<close>

theorem gated_repo_exit_status_1:
  "exit_status (ending (check_hf_size [''MODEL_PATH'' \<mapsto> ''org/gated-model'']
     (hub_with ''org/gated-model'' (Inl (GatedRepoError_exc ''401 Client Error.''))))) = 1
   \<and> exit_status (ending (check_hf_size [''MODEL_PATH'' \<mapsto> ''org/gated-model'']
     (hub_with ''org/gated-model'' (Inl (GatedRepoError_exc ''401 Client Error.''))))) \<noteq> 2"
  by (simp add: check_hf_size_def try_body_def HfApi_model_info_def matching_clause_def hub_with_def
      GatedRepoError_exc_def isinstance_def)

end
